theory Spec2Isabelle
  imports Main
begin

section \<open>The varlock action: data model\<close>

text \<open>
  The action (src/index.ts) is TypeScript running on Node. Strings are modelled as
  \<open>string\<close>, read as the UTF-8 bytes of the JavaScript string: every test the code makes on
  a string (\<open>===\<close>, \<open>startsWith\<close>, the ASCII pattern \<open>/error/gi\<close>) gives the same answer
  on the UTF-8 bytes as on the UTF-16 units.

  The \<open>value: any\<close> of a configuration entry is a JavaScript value. The model has the
  values that decide the code's branches (\<open>undefined\<close>, \<open>null\<close>) and the resolved scalars:
  booleans, strings, and numbers that are integers of magnitude below \<open>10^21\<close>, for which
  \<open>String(n)\<close> is the decimal numeral. Other numbers (fractions, and the larger ones that
  JavaScript prints with an exponent) and values that are arrays or objects are outside
  the model: \<open>JNum n\<close> stands for a number only when \<open>n\<close> is in that range.
\<close>

datatype jsvalue = JUndefined | JNull | JBool bool | JNum int | JStr string

record source =
  label :: string
  enabled :: bool
  path :: "string option"

record settings =
  redactLogs :: "bool option"
  preventLeaks :: "bool option"

record config_item =
  item_value :: jsvalue
  isSensitive :: bool

text \<open>
  \<open>config: Record<string, {value, isSensitive}>\<close> is held as the list that
  \<open>Object.entries(envGraph.config)\<close> enumerates: the own properties of the object, each key
  once.
\<close>

record env_graph =
  basePath :: "string option"
  sources :: "source list"
  settings :: settings
  config :: "(string \<times> config_item) list"

record action_inputs =
  workingDirectory :: string
  showSummary :: bool
  failOnError :: bool
  outputFormat :: string

text \<open>
  A JavaScript exception value. \<open>stdout\<close> is the property that \<open>execSync\<close> attaches to
  the error of a child that exited non-zero; it is \<open>None\<close> where the property is
  \<open>undefined\<close> (a \<open>SyntaxError\<close> of \<open>JSON.parse\<close>, a spawn failure).
\<close>

record js_error =
  err_name :: string
  message :: string
  stdout :: "string option"

text \<open>\<open>Error.prototype.toString\<close>, which the template literal \<open>${error}\<close> calls.\<close>

definition error_toString :: "js_error \<Rightarrow> string" where
  "error_toString e =
     (if err_name e = [] then message e
      else if message e = [] then err_name e
      else err_name e @ '': '' @ message e)"

subsection \<open>The host platform (@actions/core) as a recorder of calls\<close>

datatype core_call =
    Info string
  | Warning string
  | SetFailed string
  | SetOutput string string
  | ExportVariable string string
  | SetSecret string

type_synonym host = "core_call list"

definition core_info :: "string \<Rightarrow> host \<Rightarrow> host" where
  "core_info msg h = h @ [Info msg]"

definition core_warning :: "string \<Rightarrow> host \<Rightarrow> host" where
  "core_warning msg h = h @ [Warning msg]"

definition core_setFailed :: "string \<Rightarrow> host \<Rightarrow> host" where
  "core_setFailed msg h = h @ [SetFailed msg]"

definition core_setOutput :: "string \<Rightarrow> string \<Rightarrow> host \<Rightarrow> host" where
  "core_setOutput name v h = h @ [SetOutput name v]"

definition core_exportVariable :: "string \<Rightarrow> string \<Rightarrow> host \<Rightarrow> host" where
  "core_exportVariable name v h = h @ [ExportVariable name v]"

definition core_setSecret :: "string \<Rightarrow> host \<Rightarrow> host" where
  "core_setSecret v h = h @ [SetSecret v]"

subsection \<open>String conversions of JavaScript\<close>

definition digit_char :: "nat \<Rightarrow> char" where
  "digit_char d = char_of (48 + d)"

fun nat_toString :: "nat \<Rightarrow> string" where
  "nat_toString n =
     (if n < 10 then [digit_char n] else nat_toString (n div 10) @ [digit_char (n mod 10)])"

declare nat_toString.simps [simp del]

definition int_toString :: "int \<Rightarrow> string" where
  "int_toString i = (if i < 0 then CHR ''-'' # nat_toString (nat (- i)) else nat_toString (nat i))"

text \<open>\<open>String(value)\<close>.\<close>

fun String_js :: "jsvalue \<Rightarrow> string" where
  "String_js JUndefined = ''undefined''"
| "String_js JNull = ''null''"
| "String_js (JBool b) = (if b then ''true'' else ''false'')"
| "String_js (JNum n) = int_toString n"
| "String_js (JStr s) = s"

text \<open>The guard \<open>itemInfo.value !== undefined && itemInfo.value !== null\<close>.\<close>

definition is_present :: "config_item \<Rightarrow> bool" where
  "is_present itemInfo = (item_value itemInfo \<noteq> JUndefined \<and> item_value itemInfo \<noteq> JNull)"

section \<open>Export: environment variables and secrets\<close>

text \<open>
  One turn of the \<open>for\<close> loop of \<open>setEnvironmentVariables\<close>, on the loop's state: the two
  counters and the host.
\<close>

definition env_step :: "string \<times> config_item \<Rightarrow> nat \<times> nat \<times> host \<Rightarrow> nat \<times> nat \<times> host" where
  "env_step = (\<lambda>(key, itemInfo) (regularVars, secretVars, h).
     if is_present itemInfo then
       (let v = String_js (item_value itemInfo) in
        if isSensitive itemInfo
        then (regularVars, secretVars + 1, core_exportVariable key v (core_setSecret v h))
        else (regularVars + 1, secretVars, core_exportVariable key v h))
     else (regularVars, secretVars, h))"

fun env_loop :: "(string \<times> config_item) list \<Rightarrow> nat \<times> nat \<times> host \<Rightarrow> nat \<times> nat \<times> host" where
  "env_loop [] st = st"
| "env_loop (kv # rest) st = env_loop rest (env_step kv st)"

text \<open>The check mark of the log lines, U+2705, in UTF-8.\<close>

definition check_mark :: string where
  "check_mark = [char_of (0xE2::nat), char_of (0x9C::nat), char_of (0x85::nat)]"

definition setEnvironmentVariables :: "env_graph \<Rightarrow> host \<Rightarrow> host" where
  "setEnvironmentVariables envGraph h =
     (case env_loop (config envGraph) (0, 0, h) of (regularVars, secretVars, h') \<Rightarrow>
        core_info (check_mark @ '' Exported '' @ nat_toString regularVars
                   @ '' regular environment variables and '' @ nat_toString secretVars
                   @ '' secrets'') h')"

section \<open>Export: JSON blob\<close>

text \<open>
  \<open>jsonOutput\<close> starts as the object literal \<open>{}\<close> and is filled by
  \<open>jsonOutput[key] = itemInfo.value\<close>. It is held as the list of its own properties,
  in the order in which they were created (the order in which JavaScript enumerates them,
  integer-like keys first, is a function of that one).
  The assignment replaces the value of a key that is there and adds a key that is not,
  with one exception of the language: \<open>{}\<close> inherits the accessor \<open>__proto__\<close> of
  \<open>Object.prototype\<close>, so an assignment to the key \<open>__proto__\<close> runs that setter,
  which creates no own property (and, given a value that is no object, does nothing).
  \<open>JSON.parse\<close>, which defines properties instead of assigning them, does give the
  parsed \<open>config\<close> an own property \<open>__proto__\<close> for such a key, and \<open>Object.entries\<close>
  enumerates it.
\<close>

fun assign_existing :: "string \<Rightarrow> jsvalue \<Rightarrow> (string \<times> jsvalue) list \<Rightarrow> (string \<times> jsvalue) list" where
  "assign_existing key v [] = [(key, v)]"
| "assign_existing key v ((k, w) # ps) =
     (if k = key then (k, v) # ps else (k, w) # assign_existing key v ps)"

definition obj_assign :: "string \<Rightarrow> jsvalue \<Rightarrow> (string \<times> jsvalue) list \<Rightarrow> (string \<times> jsvalue) list" where
  "obj_assign key v obj = (if key = ''__proto__'' then obj else assign_existing key v obj)"

definition json_step :: "string \<times> config_item \<Rightarrow> (string \<times> jsvalue) list \<Rightarrow> (string \<times> jsvalue) list" where
  "json_step = (\<lambda>(key, itemInfo) jsonOutput.
     if is_present itemInfo then obj_assign key (item_value itemInfo) jsonOutput else jsonOutput)"

fun json_loop :: "(string \<times> config_item) list \<Rightarrow> (string \<times> jsvalue) list \<Rightarrow> (string \<times> jsvalue) list" where
  "json_loop [] jsonOutput = jsonOutput"
| "json_loop (kv # rest) jsonOutput = json_loop rest (json_step kv jsonOutput)"

text \<open>
  \<open>JSON.stringify(jsonOutput, null, 2)\<close> belongs to the runtime, not to the repository: it
  is the parameter \<open>stringify\<close>, a function of the object's own properties.
\<close>

definition outputJsonBlob :: "((string \<times> jsvalue) list \<Rightarrow> string) \<Rightarrow> env_graph \<Rightarrow> host \<Rightarrow> host" where
  "outputJsonBlob stringify envGraph h =
     (let jsonOutput = json_loop (config envGraph) [] in
      core_info (check_mark @ '' Output JSON blob with environment variables'')
        (core_setOutput ''json-env'' (stringify jsonOutput) h))"

section \<open>Detection of environment files\<close>

text \<open>\<open>file.startsWith(p)\<close> and \<open>xs.join(sep)\<close>.\<close>

definition startsWith :: "string \<Rightarrow> string \<Rightarrow> bool" where
  "startsWith file p = (take (length p) file = p)"

fun js_join :: "string \<Rightarrow> string list \<Rightarrow> string" where
  "js_join sep [] = []"
| "js_join sep [x] = x"
| "js_join sep (x # y # ys) = x @ sep @ js_join sep (y # ys)"

text \<open>
  \<open>readdirSync\<close> is the parameter \<open>readdir\<close>: the names of the directory's entries, or
  the exception it throws on a directory it cannot read.
\<close>

definition checkForEnvFiles :: "(string \<Rightarrow> js_error + string list) \<Rightarrow> string \<Rightarrow> host \<Rightarrow> bool \<times> host" where
  "checkForEnvFiles readdir workingDir h =
     (case readdir workingDir of
        Inr files \<Rightarrow>
          (let envFiles = filter (\<lambda>file. file = ''.env'' \<or> startsWith file ''.env.'') files in
           if length envFiles > 0
           then (True, core_info (''Found environment files: '' @ js_join '', '' envFiles) h)
           else (False, h))
      | Inl error \<Rightarrow>
          (False, core_warning (''Error reading directory '' @ workingDir @ '': '' @ error_toString error) h))"

section \<open>Running the validator\<close>

text \<open>
  \<open>(output.match(/error/gi) || []).length\<close>: the global match scans from the left, and
  after a match goes on behind it. Without the \<open>u\<close> flag the \<open>i\<close> flag identifies, among
  the characters that can equal an ASCII letter, only the two cases of that letter.
\<close>

definition ascii_lower :: "char \<Rightarrow> char" where
  "ascii_lower c =
     (let n = (of_char c :: nat) in if 65 \<le> n \<and> n \<le> 90 then char_of (n + 32) else c)"

fun ci_prefix :: "string \<Rightarrow> string \<Rightarrow> bool" where
  "ci_prefix [] s = True"
| "ci_prefix (p # ps) [] = False"
| "ci_prefix (p # ps) (c # cs) = (ascii_lower p = ascii_lower c \<and> ci_prefix ps cs)"

fun error_matches :: "string \<Rightarrow> nat" where
  "error_matches [] = 0"
| "error_matches (c # cs) =
     (if ci_prefix ''error'' (c # cs) then Suc (error_matches (drop 4 cs)) else error_matches cs)"

text \<open>
  The specification's words for the same number: the case-insensitive occurrences of the
  token in the text, counted by the positions at which one starts.
\<close>

definition occurrences_ci :: "string \<Rightarrow> string \<Rightarrow> nat" where
  "occurrences_ci token s = length (filter (\<lambda>i. ci_prefix token (drop i s)) [0..<length s])"

text \<open>
  \<open>execSync(command, {cwd, ...})\<close> runs a child process: it acts on the state of the
  machine, of a type \<open>'s\<close> left open, and returns the child's standard output, or throws
  when the child could not be run or exited non-zero.
\<close>

type_synonym 's exec_sync = "string \<Rightarrow> string option \<Rightarrow> 's \<Rightarrow> (js_error + string) \<times> 's"

text \<open>
  The value \<open>{ output, errorCount, envGraph? }\<close> that \<open>runVarlockLoad\<close> returns. The field
  \<open>output\<close> is \<open>load_output\<close> here, \<open>output\<close> being a word of Isabelle's own.
  \<open>envGraph\<close> is \<open>None\<close> for \<open>undefined\<close> and otherwise the value that \<open>JSON.parse\<close>
  returned. The cast \<open>as SerializedEnvGraph\<close> checks nothing, and \<open>runVarlockLoad\<close> never
  looks into the value: its type \<open>'v\<close> is left open, so that the value may be a Result
  Graph or any other JSON value (\<open>null\<close>, a number, an array).
\<close>

record 'v load_result =
  load_output :: string
  errorCount :: nat
  envGraph :: "'v option"

text \<open>
  The \<open>catch (error: any)\<close> block of the machine-mode branch. \<open>if (error.stdout)\<close> is
  false for a missing and for an empty standard output. \<open>JSON.parse\<close> is the parameter
  \<open>parse\<close>: on a text it throws (\<open>Inl\<close>) or returns a value (\<open>Inr\<close>). Only when it
  throws does the inner \<open>catch\<close> run and call \<open>core.setFailed\<close>.
\<close>

definition load_catch :: "(string \<Rightarrow> js_error + 'v) \<Rightarrow> js_error \<Rightarrow> 's \<Rightarrow> host
    \<Rightarrow> (js_error + 'v load_result) \<times> 's \<times> host" where
  "load_catch parse error sys h =
     (case stdout error of
        None \<Rightarrow> (Inl error, sys, h)
      | Some out \<Rightarrow>
          if out \<noteq> [] then
            (let errorCount = error_matches out in
             case parse out of
               Inr v \<Rightarrow> (Inr \<lparr>load_output = out, errorCount = errorCount, envGraph = Some v\<rparr>, sys, h)
             | Inl _ \<Rightarrow>
                 (Inr \<lparr>load_output = out, errorCount = errorCount, envGraph = None\<rparr>, sys,
                  core_setFailed ''Failed to parse varlock output.'' h))
          else (Inl error, sys, h))"

definition runVarlockLoad :: "'s exec_sync \<Rightarrow> (string \<Rightarrow> js_error + 'v) \<Rightarrow> action_inputs
    \<Rightarrow> 's \<Rightarrow> host \<Rightarrow> (js_error + 'v load_result) \<times> 's \<times> host" where
  "runVarlockLoad exec parse inputs sys h =
     (let defaultArgs = [''load''] in
      if showSummary inputs then
        (let h1 = core_info (''Running: varlock '' @ js_join '' '' defaultArgs) h in
         case exec (''varlock '' @ js_join '' '' defaultArgs) (Some (workingDirectory inputs)) sys of
           (Inr out, sys') \<Rightarrow> (Inr \<lparr>load_output = out, errorCount = 0, envGraph = None\<rparr>, sys', h1)
         | (Inl error, sys') \<Rightarrow>
             (case stdout error of
                None \<Rightarrow> (Inl error, sys', h1)
              | Some out \<Rightarrow>
                  if out \<noteq> [] then
                    (Inr \<lparr>load_output = out, errorCount = error_matches out, envGraph = None\<rparr>, sys', h1)
                  else (Inl error, sys', h1)))
      else
        (let internalArgs = defaultArgs @ [''--format'', ''json-full''] in
         case exec (''varlock '' @ js_join '' '' internalArgs) (Some (workingDirectory inputs)) sys of
           (Inr out, sys') \<Rightarrow>
             (case parse out of
                Inr v \<Rightarrow> (Inr \<lparr>load_output = out, errorCount = 0, envGraph = Some v\<rparr>, sys', h)
              | Inl error \<Rightarrow> load_catch parse error sys' h)
         | (Inl error, sys') \<Rightarrow> load_catch parse error sys' h))"

section \<open>The action\<close>

definition getInputs :: "(string \<Rightarrow> string) \<Rightarrow> action_inputs" where
  "getInputs getInput =
     \<lparr>workingDirectory = (if getInput ''working-directory'' \<noteq> [] then getInput ''working-directory'' else ''.''),
      showSummary = (getInput ''show-summary'' = ''true''),
      failOnError = (getInput ''fail-on-error'' = ''true''),
      outputFormat = (if getInput ''output-format'' \<noteq> [] then getInput ''output-format'' else ''env'')\<rparr>"

definition checkVarlockInstalled :: "'s exec_sync \<Rightarrow> 's \<Rightarrow> bool \<times> 's" where
  "checkVarlockInstalled exec sys =
     (case exec ''varlock --version'' None sys of
        (Inr _, sys') \<Rightarrow> (True, sys')
      | (Inl _, sys') \<Rightarrow> (False, sys'))"

definition installVarlock :: "'s exec_sync \<Rightarrow> 's \<Rightarrow> host \<Rightarrow> 's \<times> host" where
  "installVarlock exec sys h =
     (let h1 = core_info ''Installing varlock...'' h in
      case exec ''npm install -g varlock'' None sys of
        (Inr _, sys1) \<Rightarrow> (sys1, h1)
      | (Inl _, sys1) \<Rightarrow>
          (case exec ''curl -fsSL https://raw.githubusercontent.com/dmno-dev/varlock/main/install.sh | sh'' None sys1 of
             (Inr _, sys2) \<Rightarrow> (sys2, h1)
           | (Inl error, sys2) \<Rightarrow>
               (sys2, core_setFailed (''Failed to install varlock: '' @ error_toString error) h1)))"

text \<open>
  The value that \<open>JSON.parse\<close> returned, as \<open>run\<close> and the export routines tell values
  apart:
  \<^item> \<open>Graph g\<close>: a value whose \<open>config\<close> can be enumerated, \<open>g\<close> holding what the routines
    read of it (the entries of \<open>config\<close>, each with its \<open>value\<close> and its \<open>isSensitive\<close>);
  \<^item> \<open>Falsy\<close>: \<open>null\<close>, \<open>false\<close>, \<open>0\<close> or the empty string, which \<open>if (envGraph)\<close>
    refuses;
  \<^item> \<open>No_config\<close>: a truthy value without a \<open>config\<close> to enumerate (\<open>true\<close>, another
    number or string, an array such as \<open>[]\<close>, an object such as \<open>{}\<close> whose \<open>config\<close>
    is missing or \<open>null\<close>). It passes \<open>if (envGraph)\<close>, and in either export routine
    \<open>Object.entries(envGraph.config)\<close> throws a \<open>TypeError\<close> on it.
  A \<open>config\<close> with an entry that is \<open>null\<close>, or with a value that is an array or an
  object, is outside the model.
\<close>

datatype parsed = Graph env_graph | Falsy | No_config

definition type_error :: js_error where
  "type_error =
     \<lparr>err_name = ''TypeError'', message = ''Cannot convert undefined or null to object'',
      stdout = None\<rparr>"

text \<open>What the action takes from Node and from the runner.\<close>

record 's runtime =
  rt_getInput :: "string \<Rightarrow> string"
  rt_execSync :: "'s exec_sync"
  rt_readdirSync :: "'s \<Rightarrow> string \<Rightarrow> js_error + string list"
  rt_parse :: "string \<Rightarrow> js_error + parsed"
  rt_stringify :: "(string \<times> jsvalue) list \<Rightarrow> string"

text \<open>The pictographs of the log lines, in UTF-8.\<close>

definition emoji :: "nat \<Rightarrow> nat \<Rightarrow> string" where
  "emoji a b = [char_of (0xF0::nat), char_of (0x9F::nat), char_of a, char_of b]"

definition magnifier :: string where "magnifier = emoji 0x94 0x8D"
definition package_sign :: string where "package_sign = emoji 0x93 0xA6"
definition rocket :: string where "rocket = emoji 0x9A 0x80"
definition clipboard :: string where "clipboard = emoji 0x93 0x8B"
definition wrench :: string where "wrench = emoji 0x94 0xA7"
definition page_sign :: string where "page_sign = emoji 0x93 0x84"

text \<open>
  The \<open>catch (error: any)\<close> block of \<open>run\<close>, and the end of its \<open>try\<close> block, from
  \<open>if (errorCount > 0)\<close> on.
\<close>

definition run_catch :: "js_error \<Rightarrow> host \<Rightarrow> host" where
  "run_catch error h = core_setFailed (''Action failed: '' @ message error) h"

definition run_finish :: "action_inputs \<Rightarrow> nat \<Rightarrow> host \<Rightarrow> host" where
  "run_finish inputs count h =
     (let h' = (if count > 0
                then (let msg = ''Found '' @ nat_toString count @ '' validation error(s)'' in
                      if failOnError inputs then core_setFailed msg h else core_warning msg h)
                else h)
      in core_info (check_mark @ '' Environment variables loaded successfully'') h')"

text \<open>
  \<open>run\<close> from \<open>const { output, errorCount, envGraph } = runVarlockLoad(inputs)\<close> on, for a
  load that returned \<open>r\<close>. \<open>if (envGraph)\<close> holds for a graph and for a truthy value that
  is none; on the latter the export routine throws before its first call on the host,
  the rest of the \<open>try\<close> block is left, and the \<open>catch\<close> block runs.
\<close>

definition run_report :: "'s runtime \<Rightarrow> action_inputs \<Rightarrow> parsed load_result \<Rightarrow> host \<Rightarrow> host" where
  "run_report rt inputs r h =
     (let h1 = core_setOutput ''error-count'' (nat_toString (errorCount r)) h;
          h2 = (if showSummary inputs
                then core_info (load_output r)
                       (core_info (clipboard @ '' Environment Summary:'')
                          (core_setOutput ''summary'' (load_output r) h1))
                else h1);
          unparsed =
            (let h' = core_warning ''Could not parse varlock output as json-full'' h2 in
             if outputFormat inputs = ''json''
             then core_setFailed ''JSON output format requires valid varlock json-full output'' h'
             else h')
      in case envGraph r of
           Some (Graph g) \<Rightarrow>
             run_finish inputs (errorCount r)
               (if outputFormat inputs = ''env''
                then setEnvironmentVariables g
                       (core_info (wrench @ '' Setting environment variables...'') h2)
                else if outputFormat inputs = ''json''
                then outputJsonBlob (rt_stringify rt) g
                       (core_info (page_sign @ '' Outputting JSON blob...'') h2)
                else h2)
         | Some No_config \<Rightarrow>
             if outputFormat inputs = ''env''
             then run_catch type_error
                    (core_info (wrench @ '' Setting environment variables...'') h2)
             else if outputFormat inputs = ''json''
             then run_catch type_error (core_info (page_sign @ '' Outputting JSON blob...'') h2)
             else run_finish inputs (errorCount r) h2
         | Some Falsy \<Rightarrow> run_finish inputs (errorCount r) unparsed
         | None \<Rightarrow> run_finish inputs (errorCount r) unparsed)"

text \<open>\<open>run\<close> from \<open>core.info('Varlock is available')\<close> on.\<close>

definition run_available :: "'s runtime \<Rightarrow> action_inputs \<Rightarrow> 's \<Rightarrow> host \<Rightarrow> 's \<times> host" where
  "run_available rt inputs sys h =
     (let h1 = core_info (magnifier @ '' Checking for environment files...'')
                 (core_info (check_mark @ '' Varlock is available'') h) in
      case checkForEnvFiles (rt_readdirSync rt sys) (workingDirectory inputs) h1 of
        (hasEnvFiles, h2) \<Rightarrow>
          if \<not> hasEnvFiles then
            (sys,
             core_setFailed ''No environment files found''
               (core_info ''This action requires environment files (e.g., .env, .env.local, .env.production)''
                  (core_warning ''No .env files detected'' h2)))
          else
            (let h3 = core_info (rocket @ '' Loading environment variables with varlock...'')
                        (core_info (check_mark @ '' Environment files found'') h2) in
             case runVarlockLoad (rt_execSync rt) (rt_parse rt) inputs sys h3 of
               (Inl error, sys', h4) \<Rightarrow> (sys', run_catch error h4)
             | (Inr r, sys', h4) \<Rightarrow> (sys', run_report rt inputs r h4)))"

definition run :: "'s runtime \<Rightarrow> 's \<Rightarrow> host \<Rightarrow> 's \<times> host" where
  "run rt sys h =
     (let inputs = getInputs (rt_getInput rt);
          h1 = core_info (magnifier @ '' Checking for varlock installation...'') h in
      case checkVarlockInstalled (rt_execSync rt) sys of
        (True, sys1) \<Rightarrow> run_available rt inputs sys1 h1
      | (False, sys1) \<Rightarrow>
          (let h2 = core_info (package_sign @ '' Varlock not found, installing...'') h1 in
           case installVarlock (rt_execSync rt) sys1 h2 of
             (sys2, h3) \<Rightarrow>
               (case checkVarlockInstalled (rt_execSync rt) sys2 of
                  (True, sys3) \<Rightarrow> run_available rt inputs sys3 h3
                | (False, sys3) \<Rightarrow> (sys3, core_setFailed ''Failed to install varlock'' h3))))"

text \<open>The command line of the load, by mode.\<close>

definition load_command :: "action_inputs \<Rightarrow> string" where
  "load_command inputs =
     (if showSummary inputs then ''varlock load'' else ''varlock load --format json-full'')"

section \<open>Reading the recorder\<close>

text \<open>
  What a sequence of calls amounts to: the variables exported and the values registered
  for masking, the outputs set, and the environment and outputs that result (a later
  call on a name replaces an earlier one).
\<close>

definition exports :: "host \<Rightarrow> (string \<times> string) list" where
  "exports h = concat (map (\<lambda>c. case c of ExportVariable k v \<Rightarrow> [(k, v)] | _ \<Rightarrow> []) h)"

definition masks :: "host \<Rightarrow> string list" where
  "masks h = concat (map (\<lambda>c. case c of SetSecret v \<Rightarrow> [v] | _ \<Rightarrow> []) h)"

definition outputs :: "host \<Rightarrow> (string \<times> string) list" where
  "outputs h = concat (map (\<lambda>c. case c of SetOutput k v \<Rightarrow> [(k, v)] | _ \<Rightarrow> []) h)"

definition environment :: "host \<Rightarrow> string \<rightharpoonup> string" where
  "environment h = map_of (rev (exports h))"

definition published :: "host \<Rightarrow> string \<rightharpoonup> string" where
  "published h = map_of (rev (outputs h))"

fun is_export :: "core_call \<Rightarrow> bool" where
  "is_export (ExportVariable k v) = True"
| "is_export (SetSecret v) = True"
| "is_export c = False"

fun is_failure :: "core_call \<Rightarrow> bool" where
  "is_failure (SetFailed msg) = True"
| "is_failure c = False"

definition quiet :: "host \<Rightarrow> bool" where
  "quiet h = (\<not> list_ex is_export h)"

definition marked_failed :: "host \<Rightarrow> bool" where
  "marked_failed h = list_ex is_failure h"

text \<open>
  The calls that the loop of \<open>setEnvironmentVariables\<close> makes on a list of entries, the
  calls of one turn written out, the two counts, and the line logged at the end.
\<close>

definition env_calls :: "(string \<times> config_item) list \<Rightarrow> core_call list" where
  "env_calls cfg = snd (snd (env_loop cfg (0, 0, [])))"

definition entry_calls :: "string \<times> config_item \<Rightarrow> core_call list" where
  "entry_calls = (\<lambda>(key, itemInfo).
     if is_present itemInfo then
       (if isSensitive itemInfo
        then [SetSecret (String_js (item_value itemInfo)),
              ExportVariable key (String_js (item_value itemInfo))]
        else [ExportVariable key (String_js (item_value itemInfo))])
     else [])"

definition regular_count :: "(string \<times> config_item) list \<Rightarrow> nat" where
  "regular_count cfg = length (filter (\<lambda>(k, e). is_present e \<and> \<not> isSensitive e) cfg)"

definition secret_count :: "(string \<times> config_item) list \<Rightarrow> nat" where
  "secret_count cfg = length (filter (\<lambda>(k, e). is_present e \<and> isSensitive e) cfg)"

definition export_summary :: "(string \<times> config_item) list \<Rightarrow> string" where
  "export_summary cfg =
     check_mark @ '' Exported '' @ nat_toString (regular_count cfg)
       @ '' regular environment variables and '' @ nat_toString (secret_count cfg)
       @ '' secrets''"

text \<open>
  The own properties that \<open>jsonOutput\<close> ends with, for a configuration whose keys are
  distinct: the present entries in order, the key \<open>__proto__\<close> left out.
\<close>

definition blob_of :: "(string \<times> config_item) list \<Rightarrow> (string \<times> jsvalue) list" where
  "blob_of cfg = map (\<lambda>(k, e). (k, item_value e))
                   (filter (\<lambda>(k, e). is_present e \<and> k \<noteq> ''__proto__'') cfg)"

section \<open>Concrete inputs\<close>

definition empty_graph :: env_graph where
  "empty_graph =
     \<lparr>basePath = None, sources = [],
      settings = \<lparr>redactLogs = None, preventLeaks = None\<rparr>, config = []\<rparr>"

definition graph_of :: "(string \<times> config_item) list \<Rightarrow> env_graph" where
  "graph_of cfg = empty_graph\<lparr>config := cfg\<rparr>"

definition empty_graph_text :: string where
  \<open>empty_graph_text = ''{"sources":[],"settings":{},"config":{}}''\<close>

definition syntax_error :: js_error where
  "syntax_error =
     \<lparr>err_name = ''SyntaxError'', message = ''Unexpected token in JSON'', stdout = None\<rparr>"

text \<open>A \<open>JSON.parse\<close> given by a table of the texts it parses; every other text is refused.\<close>

definition parse_known :: "(string \<times> 'v) list \<Rightarrow> string \<Rightarrow> js_error + 'v" where
  "parse_known table text =
     (case map_of table text of Some g \<Rightarrow> Inr g | None \<Rightarrow> Inl syntax_error)"

definition parse_nothing :: "string \<Rightarrow> js_error + parsed" where
  "parse_nothing = parse_known []"

text \<open>A child process that exits non-zero, with the given standard output, and one that exits zero.\<close>

definition exec_fails :: "string option \<Rightarrow> unit exec_sync" where
  "exec_fails out = (\<lambda>command cwd sys.
     (Inl \<lparr>err_name = ''Error'', message = ''Command failed: '' @ command, stdout = out\<rparr>, sys))"

definition exec_exits :: "string \<Rightarrow> unit exec_sync" where
  "exec_exits out = (\<lambda>command cwd sys. (Inr out, sys))"

definition machine_inputs :: action_inputs where
  "machine_inputs =
     \<lparr>workingDirectory = ''.'', showSummary = False, failOnError = True, outputFormat = ''env''\<rparr>"

definition summary_inputs :: action_inputs where
  "summary_inputs =
     \<lparr>workingDirectory = ''.'', showSummary = True, failOnError = True, outputFormat = ''env''\<rparr>"

definition summary_text :: string where
  "summary_text = ''ERROR: API_KEY is required; Error: PORT must be a number''"

definition failing_graph_text :: string where
  \<open>failing_graph_text = ''{"errors":["API_KEY"],"config":{}}''\<close>

definition sample_config :: "(string \<times> config_item) list" where
  "sample_config =
     [(''PORT'', \<lparr>item_value = JNum 3000, isSensitive = False\<rparr>),
      (''API_KEY'', \<lparr>item_value = JStr ''sk-123'', isSensitive = True\<rparr>),
      (''OPTIONAL'', \<lparr>item_value = JNull, isSensitive = True\<rparr>)]"

definition proto_config :: "(string \<times> config_item) list" where
  "proto_config =
     [(''X'', \<lparr>item_value = JNum 1, isSensitive = False\<rparr>),
      (''__proto__'', \<lparr>item_value = JStr ''s'', isSensitive = False\<rparr>)]"

definition falsy_proto_config :: "(string \<times> config_item) list" where
  "falsy_proto_config = [(''__proto__'', \<lparr>item_value = JNum 0, isSensitive = False\<rparr>)]"

text \<open>
  Two runners, each with the validator installed, a schema file in the directory, and a
  load that exits zero: one with every input left empty (machine mode, format \<open>env\<close>),
  given the load's standard output and the parser's table; one asking for the summary
  and the JSON output.
\<close>

definition machine_runtime :: "string \<Rightarrow> (string \<times> parsed) list \<Rightarrow> unit runtime" where
  "machine_runtime out table =
     \<lparr>rt_getInput = (\<lambda>name. []),
      rt_execSync = exec_exits out,
      rt_readdirSync = (\<lambda>sys dir. Inr [''.env.schema'']),
      rt_parse = parse_known table,
      rt_stringify = (\<lambda>obj. [])\<rparr>"

definition summary_runtime :: "unit runtime" where
  "summary_runtime =
     \<lparr>rt_getInput = (\<lambda>name. if name = ''show-summary'' then ''true''
                             else if name = ''output-format'' then ''json'' else []),
      rt_execSync = exec_exits ''ok'',
      rt_readdirSync = (\<lambda>sys dir. Inr [''.env.schema'']),
      rt_parse = parse_known [],
      rt_stringify = (\<lambda>obj. [])\<rparr>"

section \<open>Counting the matches of the pattern\<close>

lemma filter_upt_shift:
  "length (filter P [Suc 0..<Suc n]) = length (filter (\<lambda>i. P (Suc i)) [0..<n])"
proof -
  have "[Suc 0..<Suc n] = map Suc [0..<n]" by (simp add: map_Suc_upt)
  then show ?thesis by (simp add: filter_map o_def)
qed

lemma occurrences_Nil: "occurrences_ci token [] = 0"
  by (simp add: occurrences_ci_def)

lemma occurrences_Cons:
  "occurrences_ci token (c # cs) =
     (if ci_prefix token (c # cs) then 1 else 0) + occurrences_ci token cs"
proof -
  have "[0..<length (c # cs)] = 0 # [Suc 0..<Suc (length cs)]" by (simp add: upt_rec)
  then show ?thesis
    using filter_upt_shift [of "\<lambda>i. ci_prefix token (drop i (c # cs))" "length cs"]
    by (simp add: occurrences_ci_def)
qed

lemma lower_letters:
  "ascii_lower CHR ''e'' = CHR ''e''" "ascii_lower CHR ''r'' = CHR ''r''"
  "ascii_lower CHR ''o'' = CHR ''o''"
  by (simp_all add: ascii_lower_def)

text \<open>
  No proper suffix of "error" is a prefix of it, so no occurrence starts inside another:
  going on behind a match loses none.
\<close>

lemma error_no_overlap:
  assumes "ci_prefix ''error'' (c # cs)"
  shows "occurrences_ci ''error'' cs = occurrences_ci ''error'' (drop 4 cs)"
proof -
  from assms obtain c2 c3 c4 c5 rest where cs: "cs = c2 # c3 # c4 # c5 # rest"
    by (cases cs; simp; cases "tl cs"; simp; cases "tl (tl cs)"; simp; cases "tl (tl (tl cs))"; simp)
  from assms cs have l: "ascii_lower c2 = CHR ''r''" "ascii_lower c3 = CHR ''r''"
    "ascii_lower c4 = CHR ''o''" "ascii_lower c5 = CHR ''r''"
    by (auto simp: lower_letters)
  show ?thesis using l by (simp add: cs occurrences_Cons lower_letters)
qed

lemma error_matches_occurrences: "error_matches s = occurrences_ci ''error'' s"
proof (induction s rule: error_matches.induct)
  case 1
  show ?case by (simp add: occurrences_Nil)
next
  case (2 c cs)
  show ?case
  proof (cases "ci_prefix ''error'' (c # cs)")
    case True
    then show ?thesis
      using 2 error_no_overlap [OF True] by (simp add: occurrences_Cons del: ci_prefix.simps)
  next
    case False
    then show ?thesis using 2 by (simp add: occurrences_Cons del: ci_prefix.simps)
  qed
qed

section \<open>Detection of environment files: properties\<close>

lemma startsWith_env_dot: "startsWith f ''.env.'' \<longleftrightarrow> (\<exists>suffix. f = ''.env.'' @ suffix)"
proof
  assume "startsWith f ''.env.''"
  then have "take (length ''.env.'') f = ''.env.''" unfolding startsWith_def .
  then have "f = ''.env.'' @ drop (length ''.env.'') f" by (metis append_take_drop_id)
  then show "\<exists>suffix. f = ''.env.'' @ suffix" ..
next
  assume "\<exists>suffix. f = ''.env.'' @ suffix"
  then show "startsWith f ''.env.''" by (auto simp: startsWith_def)
qed

text \<open>
  C4. On a directory that can be read, detection answers true exactly when some entry is
  named \<open>.env\<close> or \<open>.env.\<close> followed by any suffix (so for \<open>.env.local\<close>,
  \<open>.env.production\<close>, \<open>.env.schema\<close>); it answers false on an empty directory; and on a
  directory that cannot be read it answers false, the exception being caught.
\<close>

theorem checkForEnvFiles_detects:
  "(readdir dir = Inr files \<longrightarrow>
      (fst (checkForEnvFiles readdir dir h) \<longleftrightarrow>
         (\<exists>f \<in> set files. f = ''.env'' \<or> (\<exists>suffix. f = ''.env.'' @ suffix))))
   \<and> (readdir dir = Inr [] \<longrightarrow> \<not> fst (checkForEnvFiles readdir dir h))
   \<and> (readdir dir = Inl err \<longrightarrow> \<not> fst (checkForEnvFiles readdir dir h))"
  by (auto simp: checkForEnvFiles_def Let_def startsWith_env_dot filter_empty_conv
           split: sum.splits)

theorem checkForEnvFiles_detects_witness:
  "fst (checkForEnvFiles (\<lambda>d. Inr [''README.md'', ''.env.schema'']) ''.'' [])
   \<and> fst (checkForEnvFiles (\<lambda>d. Inr [''src'', ''.env'']) ''.'' [])
   \<and> \<not> fst (checkForEnvFiles (\<lambda>d. Inr [''src'', ''.envrc'', ''env.d.ts'']) ''.'' [])
   \<and> \<not> fst (checkForEnvFiles (\<lambda>d. Inr []) ''.'' [])
   \<and> \<not> fst (checkForEnvFiles (\<lambda>d. Inl syntax_error) ''.'' [])"
  using checkForEnvFiles_detects [of "\<lambda>d. Inr [''README.md'', ''.env.schema'']" "''.''"
          "[''README.md'', ''.env.schema'']" "[]" syntax_error]
        checkForEnvFiles_detects [of "\<lambda>d. Inr [''src'', ''.env'']" "''.''"
          "[''src'', ''.env'']" "[]" syntax_error]
        checkForEnvFiles_detects [of "\<lambda>d. Inr [''src'', ''.envrc'', ''env.d.ts'']" "''.''"
          "[''src'', ''.envrc'', ''env.d.ts'']" "[]" syntax_error]
        checkForEnvFiles_detects [of "\<lambda>d. Inr []" "''.''" "[]" "[]" syntax_error]
        checkForEnvFiles_detects [of "\<lambda>d. Inl syntax_error" "''.''" "[]" "[]" syntax_error]
  by simp

section \<open>Running the validator: properties\<close>

text \<open>
  C6. In either mode, when the load's child process fails and its error carries no
  standard output (none at all, or the empty text), \<open>runVarlockLoad\<close> throws that error
  to its caller: it returns no result.
\<close>

theorem runVarlockLoad_rethrows:
  assumes "exec (load_command inputs) (Some (workingDirectory inputs)) sys = (Inl err, sys')"
    and "stdout err = None \<or> stdout err = Some []"
  shows "fst (runVarlockLoad exec parse inputs sys h) = Inl err"
  using assms
  by (auto simp: runVarlockLoad_def load_command_def load_catch_def Let_def)

theorem runVarlockLoad_rethrows_witness:
  "fst (runVarlockLoad (exec_fails None) parse_nothing summary_inputs () [])
     = Inl \<lparr>err_name = ''Error'', message = ''Command failed: varlock load'', stdout = None\<rparr>
   \<and> fst (runVarlockLoad (exec_fails (Some [])) parse_nothing machine_inputs () [])
     = Inl \<lparr>err_name = ''Error'', message = ''Command failed: varlock load --format json-full'',
            stdout = Some []\<rparr>"
proof -
  have a: "exec_fails None (load_command summary_inputs) (Some (workingDirectory summary_inputs)) ()
             = (Inl \<lparr>err_name = ''Error'', message = ''Command failed: varlock load'',
                     stdout = None\<rparr>, ())"
    by (simp add: exec_fails_def load_command_def summary_inputs_def)
  have b: "exec_fails (Some []) (load_command machine_inputs)
             (Some (workingDirectory machine_inputs)) ()
             = (Inl \<lparr>err_name = ''Error'',
                     message = ''Command failed: varlock load --format json-full'',
                     stdout = Some []\<rparr>, ())"
    by (simp add: exec_fails_def load_command_def machine_inputs_def)
  show ?thesis
    using runVarlockLoad_rethrows [where exec = "exec_fails None" and inputs = summary_inputs
            and sys = "()" and sys' = "()" and parse = "parse_nothing" and h = "[]", OF a]
          runVarlockLoad_rethrows [where exec = "exec_fails (Some [])" and inputs = machine_inputs
            and sys = "()" and sys' = "()" and parse = "parse_nothing" and h = "[]", OF b]
    by simp
qed

text \<open>
  C7. In summary mode a load that exits zero returns its standard output with
  \<open>errorCount = 0\<close>; a load that exits non-zero with some standard output returns that
  output with \<open>errorCount\<close> the number of case-insensitive occurrences of "error" in it;
  and whatever the load does, a result returned in this mode carries no Result Graph.
\<close>

theorem summary_mode_load:
  assumes "showSummary inputs"
  shows "(exec ''varlock load'' (Some (workingDirectory inputs)) sys = (Inr out, sys') \<longrightarrow>
            fst (runVarlockLoad exec parse inputs sys h)
              = Inr \<lparr>load_output = out, errorCount = 0, envGraph = None\<rparr>)
       \<and> (exec ''varlock load'' (Some (workingDirectory inputs)) sys = (Inl err, sys')
            \<and> stdout err = Some out \<and> out \<noteq> [] \<longrightarrow>
            fst (runVarlockLoad exec parse inputs sys h)
              = Inr \<lparr>load_output = out, errorCount = occurrences_ci ''error'' out,
                     envGraph = None\<rparr>)
       \<and> (\<forall>r. fst (runVarlockLoad exec parse inputs sys h) = Inr r \<longrightarrow> envGraph r = None)"
  using assms
  by (auto simp: runVarlockLoad_def error_matches_occurrences Let_def
           split: prod.splits sum.splits option.splits)

lemma summary_text_count: "occurrences_ci ''error'' summary_text = 2"
  unfolding summary_text_def by code_simp

theorem summary_mode_load_witness:
  "fst (runVarlockLoad (exec_exits ''ok'') parse_nothing summary_inputs () [])
     = Inr \<lparr>load_output = ''ok'', errorCount = 0, envGraph = None\<rparr>
   \<and> fst (runVarlockLoad (exec_fails (Some summary_text)) parse_nothing summary_inputs () [])
     = Inr \<lparr>load_output = summary_text, errorCount = 2, envGraph = None\<rparr>"
proof -
  have s: "showSummary summary_inputs" by (simp add: summary_inputs_def)
  have a: "exec_exits ''ok'' ''varlock load'' (Some (workingDirectory summary_inputs)) ()
             = (Inr ''ok'', ())"
    by (simp add: exec_exits_def)
  have b: "exec_fails (Some summary_text) ''varlock load''
             (Some (workingDirectory summary_inputs)) ()
             = (Inl \<lparr>err_name = ''Error'', message = ''Command failed: varlock load'',
                     stdout = Some summary_text\<rparr>, ())"
    by (simp add: exec_fails_def)
  have ne: "summary_text \<noteq> []" by (simp add: summary_text_def)
  show ?thesis
    using summary_mode_load [OF s, where exec = "exec_exits ''ok''" and sys = "()" and sys' = "()"
            and out = "''ok''" and parse = "parse_nothing" and h = "[]"] a
          summary_mode_load [OF s, where exec = "exec_fails (Some summary_text)" and sys = "()"
            and sys' = "()" and out = summary_text and parse = "parse_nothing" and h = "[]"
            and err = "\<lparr>err_name = ''Error'', message = ''Command failed: varlock load'',
                       stdout = Some summary_text\<rparr>"] b ne
    by (simp add: summary_text_count)
qed

text \<open>
  C1, as the code has it. In machine mode let the load exit non-zero with some standard
  output. \<open>runVarlockLoad\<close> then does not throw and returns the raw text with the counted
  \<open>errorCount\<close>, and a text that does not parse as a Result Graph is one of two kinds.
  When \<open>JSON.parse\<close> throws on it, the result carries no Result Graph (\<open>envGraph\<close> is
  \<open>undefined\<close>) and what is surfaced is not a warning but the one call
  \<open>core.setFailed('Failed to parse varlock output.')\<close>, which marks the run as failed.
  When \<open>JSON.parse\<close> returns a value, whatever it is (\<open>null\<close> for the text "null", so
  also a value that is no Result Graph), that value is returned as \<open>envGraph\<close> and no call
  at all is made on the host: neither a warning nor a failure.
\<close>

theorem unparseable_output_marks_failed:
  assumes "\<not> showSummary inputs"
    and "exec ''varlock load --format json-full'' (Some (workingDirectory inputs)) sys
           = (Inl err, sys')"
    and "stdout err = Some out" and "out \<noteq> []"
  shows "(parse out = Inl perr \<longrightarrow>
            runVarlockLoad exec parse inputs sys h
              = (Inr \<lparr>load_output = out, errorCount = occurrences_ci ''error'' out,
                      envGraph = None\<rparr>,
                 sys', h @ [SetFailed ''Failed to parse varlock output.'']))
       \<and> (parse out = Inr v \<longrightarrow>
            runVarlockLoad exec parse inputs sys h
              = (Inr \<lparr>load_output = out, errorCount = occurrences_ci ''error'' out,
                      envGraph = Some v\<rparr>,
                 sys', h))"
  using assms
  by (simp add: runVarlockLoad_def load_catch_def core_setFailed_def error_matches_occurrences)

lemma plain_text_counts:
  "occurrences_ci ''error'' ''Segmentation fault'' = 0" "occurrences_ci ''error'' ''null'' = 0"
  by code_simp+

theorem unparseable_output_marks_failed_witness:
  "runVarlockLoad (exec_fails (Some ''Segmentation fault'')) (parse_known [(''null'', Falsy)])
      machine_inputs () []
     = (Inr \<lparr>load_output = ''Segmentation fault'', errorCount = 0, envGraph = None\<rparr>, (),
        [SetFailed ''Failed to parse varlock output.''])
   \<and> runVarlockLoad (exec_fails (Some ''null'')) (parse_known [(''null'', Falsy)])
      machine_inputs () []
     = (Inr \<lparr>load_output = ''null'', errorCount = 0, envGraph = Some Falsy\<rparr>, (), [])"
proof -
  have m: "\<not> showSummary machine_inputs" by (simp add: machine_inputs_def)
  have a: "exec_fails (Some ''Segmentation fault'') ''varlock load --format json-full''
             (Some (workingDirectory machine_inputs)) ()
           = (Inl \<lparr>err_name = ''Error'',
                   message = ''Command failed: varlock load --format json-full'',
                   stdout = Some ''Segmentation fault''\<rparr>, ())"
    by (simp add: exec_fails_def)
  have b: "exec_fails (Some ''null'') ''varlock load --format json-full''
             (Some (workingDirectory machine_inputs)) ()
           = (Inl \<lparr>err_name = ''Error'',
                   message = ''Command failed: varlock load --format json-full'',
                   stdout = Some ''null''\<rparr>, ())"
    by (simp add: exec_fails_def)
  have p: "parse_known [(''null'', Falsy)] ''Segmentation fault'' = Inl syntax_error"
    by (simp add: parse_known_def)
  have q: "parse_known [(''null'', Falsy)] ''null'' = Inr Falsy"
    by (simp add: parse_known_def)
  show ?thesis
    using unparseable_output_marks_failed
            [where exec = "exec_fails (Some ''Segmentation fault'')"
               and inputs = machine_inputs and sys = "()" and sys' = "()"
               and parse = "parse_known [(''null'', Falsy)]" and out = "''Segmentation fault''"
               and h = "[]" and perr = syntax_error and v = Falsy, OF m a]
          unparseable_output_marks_failed
            [where exec = "exec_fails (Some ''null'')"
               and inputs = machine_inputs and sys = "()" and sys' = "()"
               and parse = "parse_known [(''null'', Falsy)]" and out = "''null''"
               and h = "[]" and perr = syntax_error and v = Falsy, OF m b]
          p q
    by (simp add: plain_text_counts)
qed

text \<open>
  The claim C1 as it is written fails: on the output "Segmentation fault" the one call made
  on the host is \<open>setFailed\<close>, and no warning is logged.
\<close>

theorem unparseable_output_counterexample:
  "runVarlockLoad (exec_fails (Some ''Segmentation fault'')) (parse_known [(''null'', Falsy)])
      machine_inputs () []
     = (Inr \<lparr>load_output = ''Segmentation fault'', errorCount = 0, envGraph = None\<rparr>, (),
        [SetFailed ''Failed to parse varlock output.''])"
  by code_simp

text \<open>
  C2, as the code has it. In machine mode, when the load exits non-zero with some standard
  output that parses as a Result Graph, \<open>runVarlockLoad\<close> returns that graph, the raw
  text, and as \<open>errorCount\<close> the number of case-insensitive occurrences of "error" in the
  text: a number that is at least 1 only when the text contains the token.
\<close>

theorem partial_graph_error_count:
  assumes "\<not> showSummary inputs"
    and "exec ''varlock load --format json-full'' (Some (workingDirectory inputs)) sys
           = (Inl err, sys')"
    and "stdout err = Some out" and "out \<noteq> []"
    and "parse out = Inr g"
  shows "runVarlockLoad exec parse inputs sys h
           = (Inr \<lparr>load_output = out, errorCount = occurrences_ci ''error'' out,
                   envGraph = Some g\<rparr>,
              sys', h)"
  using assms
  by (simp add: runVarlockLoad_def load_catch_def error_matches_occurrences)

lemma failing_graph_text_count: "occurrences_ci ''error'' failing_graph_text = 1"
  unfolding failing_graph_text_def by code_simp

theorem partial_graph_error_count_witness:
  "runVarlockLoad (exec_fails (Some failing_graph_text))
      (parse_known [(failing_graph_text, empty_graph)]) machine_inputs () []
     = (Inr \<lparr>load_output = failing_graph_text, errorCount = 1, envGraph = Some empty_graph\<rparr>,
        (), [])"
proof -
  have m: "\<not> showSummary machine_inputs" by (simp add: machine_inputs_def)
  have a: "exec_fails (Some failing_graph_text) ''varlock load --format json-full''
             (Some (workingDirectory machine_inputs)) ()
           = (Inl \<lparr>err_name = ''Error'',
                   message = ''Command failed: varlock load --format json-full'',
                   stdout = Some failing_graph_text\<rparr>, ())"
    by (simp add: exec_fails_def)
  have p: "parse_known [(failing_graph_text, empty_graph)] failing_graph_text = Inr empty_graph"
    by (simp add: parse_known_def)
  have ne: "failing_graph_text \<noteq> []" by (simp add: failing_graph_text_def)
  show ?thesis
    using partial_graph_error_count [where exec = "exec_fails (Some failing_graph_text)"
            and inputs = machine_inputs and sys = "()" and sys' = "()"
            and parse = "parse_known [(failing_graph_text, empty_graph)]"
            and out = failing_graph_text and h = "[]", OF m a _ ne p]
    by (simp add: failing_graph_text_count)
qed

text \<open>
  The claim C2 as it is written fails: a graph text without the token "error" gives a
  Result Graph and \<open>errorCount = 0\<close>, although the load exited non-zero.
\<close>

theorem partial_graph_error_count_counterexample:
  "fst (runVarlockLoad (exec_fails (Some empty_graph_text))
          (parse_known [(empty_graph_text, empty_graph)]) machine_inputs () [])
     = Inr \<lparr>load_output = empty_graph_text, errorCount = 0, envGraph = Some empty_graph\<rparr>"
  by code_simp

section \<open>Export of environment variables and secrets: properties\<close>

lemma env_step_eq:
  "env_step kv (r, s, h) = (r + regular_count [kv], s + secret_count [kv], h @ entry_calls kv)"
  by (cases kv)
     (simp add: env_step_def entry_calls_def regular_count_def secret_count_def
        core_exportVariable_def core_setSecret_def Let_def)

lemma env_loop_eq:
  "env_loop cfg (r, s, h) =
     (r + regular_count cfg, s + secret_count cfg, h @ concat (map entry_calls cfg))"
proof (induction cfg arbitrary: r s h)
  case Nil
  show ?case by (simp add: regular_count_def secret_count_def)
next
  case (Cons kv cfg)
  have "regular_count (kv # cfg) = regular_count [kv] + regular_count cfg"
       "secret_count (kv # cfg) = secret_count [kv] + secret_count cfg"
    by (simp_all add: regular_count_def secret_count_def)
  then show ?case by (simp add: env_step_eq Cons.IH)
qed

lemma env_calls_concat: "env_calls cfg = concat (map entry_calls cfg)"
  by (simp add: env_calls_def env_loop_eq)

lemma env_calls_append: "env_calls (xs @ ys) = env_calls xs @ env_calls ys"
  by (simp add: env_calls_concat)

lemma env_calls_Cons: "env_calls (kv # ys) = entry_calls kv @ env_calls ys"
  by (simp add: env_calls_concat)

lemma setEnvironmentVariables_eq:
  "setEnvironmentVariables g h = h @ env_calls (config g) @ [Info (export_summary (config g))]"
  by (simp add: setEnvironmentVariables_def env_loop_eq env_calls_concat core_info_def export_summary_def)

lemma export_in_env_calls:
  "ExportVariable k v \<in> set (env_calls cfg) \<longleftrightarrow>
     (\<exists>e. (k, e) \<in> set cfg \<and> is_present e \<and> v = String_js (item_value e))"
  by (induction cfg) (auto simp: env_calls_Cons entry_calls_def env_calls_concat split: if_splits)

lemma secret_in_env_calls:
  "SetSecret s \<in> set (env_calls cfg) \<longleftrightarrow>
     (\<exists>k e. (k, e) \<in> set cfg \<and> is_present e \<and> isSensitive e \<and> s = String_js (item_value e))"
  by (induction cfg) (auto simp: env_calls_Cons entry_calls_def env_calls_concat split: if_splits)

text \<open>
  C3. Let the configuration be \<open>before @ (key, item) # after\<close>, its keys distinct. The calls
  that \<open>setEnvironmentVariables\<close> makes are those for the entries before, then those for
  the entry, then those for the entries after, then one log line. For the entry they are:
  with a present value and the sensitive flag, \<open>setSecret\<close> on the value's string and
  directly after it \<open>exportVariable\<close> under the key; with a present value and no sensitive
  flag, \<open>exportVariable\<close> alone, nothing being registered; with an absent value, none.
  No other entry exports under that key, so an entry with an absent value is never
  exported; and the values registered for masking are exactly the strings of the present
  sensitive entries.
\<close>

theorem setEnvironmentVariables_masks_first:
  assumes cfg: "config g = before @ (key, item) # after"
    and dist: "distinct (map fst (config g))"
  shows "(\<exists>msg. \<forall>h. setEnvironmentVariables g h =
            h @ env_calls before
              @ (if is_present item
                 then (if isSensitive item
                       then [SetSecret (String_js (item_value item)),
                             ExportVariable key (String_js (item_value item))]
                       else [ExportVariable key (String_js (item_value item))])
                 else [])
              @ env_calls after @ [Info msg])
       \<and> (\<forall>v. ExportVariable key v \<notin> set (env_calls before) \<union> set (env_calls after))
       \<and> (\<not> is_present item \<longrightarrow> (\<forall>v. ExportVariable key v \<notin> set (setEnvironmentVariables g [])))
       \<and> (\<forall>s. SetSecret s \<in> set (setEnvironmentVariables g []) \<longleftrightarrow>
             (\<exists>k e. (k, e) \<in> set (config g) \<and> is_present e \<and> isSensitive e
                    \<and> s = String_js (item_value e)))"
proof -
  have split: "env_calls (config g) = env_calls before @ entry_calls (key, item) @ env_calls after"
    by (simp add: cfg env_calls_append env_calls_Cons)
  have others: "key \<notin> fst ` set before" "key \<notin> fst ` set after"
    using dist by (auto simp: cfg)
  have no_other: "ExportVariable key v \<notin> set (env_calls before) \<union> set (env_calls after)" for v
    using others by (force simp: export_in_env_calls)
  have absent: "\<not> is_present item \<Longrightarrow> ExportVariable key v \<notin> set (setEnvironmentVariables g [])" for v
    using no_other [of v] by (simp add: setEnvironmentVariables_eq split entry_calls_def)
  have "\<forall>h. setEnvironmentVariables g h =
            h @ env_calls before
              @ (if is_present item
                 then (if isSensitive item
                       then [SetSecret (String_js (item_value item)),
                             ExportVariable key (String_js (item_value item))]
                       else [ExportVariable key (String_js (item_value item))])
                 else [])
              @ env_calls after @ [Info (export_summary (config g))]"
    by (simp add: setEnvironmentVariables_eq split entry_calls_def)
  then have first: "\<exists>msg. \<forall>h. setEnvironmentVariables g h =
            h @ env_calls before
              @ (if is_present item
                 then (if isSensitive item
                       then [SetSecret (String_js (item_value item)),
                             ExportVariable key (String_js (item_value item))]
                       else [ExportVariable key (String_js (item_value item))])
                 else [])
              @ env_calls after @ [Info msg]" ..
  have secrets: "SetSecret s \<in> set (setEnvironmentVariables g []) \<longleftrightarrow>
             (\<exists>k e. (k, e) \<in> set (config g) \<and> is_present e \<and> isSensitive e
                    \<and> s = String_js (item_value e))" for s
    by (simp add: setEnvironmentVariables_eq secret_in_env_calls)
  show ?thesis using first no_other absent secrets by blast
qed

lemma nat_toString_3000: "nat_toString 3000 = ''3000''"
  by code_simp

theorem setEnvironmentVariables_masks_first_witness:
  "\<exists>msg. \<forall>h. setEnvironmentVariables (graph_of sample_config) h =
     h @ [ExportVariable ''PORT'' ''3000'', SetSecret ''sk-123'',
          ExportVariable ''API_KEY'' ''sk-123'', Info msg]"
proof -
  have c: "config (graph_of sample_config) =
             [(''PORT'', \<lparr>item_value = JNum 3000, isSensitive = False\<rparr>)]
             @ (''API_KEY'', \<lparr>item_value = JStr ''sk-123'', isSensitive = True\<rparr>)
             # [(''OPTIONAL'', \<lparr>item_value = JNull, isSensitive = True\<rparr>)]"
    by (simp add: graph_of_def sample_config_def)
  have d: "distinct (map fst (config (graph_of sample_config)))"
    by (simp add: graph_of_def sample_config_def)
  have b: "env_calls [(''PORT'', \<lparr>item_value = JNum 3000, isSensitive = False\<rparr>)]
             = [ExportVariable ''PORT'' ''3000'']"
    by (simp add: env_calls_def env_step_def is_present_def core_exportVariable_def
          int_toString_def nat_toString_3000)
  have a: "env_calls [(''OPTIONAL'', \<lparr>item_value = JNull, isSensitive = True\<rparr>)] = []"
    by (simp add: env_calls_def env_step_def is_present_def)
  show ?thesis
    using setEnvironmentVariables_masks_first [OF c d] a b
    by (simp add: is_present_def)
qed

section \<open>Export of the JSON blob: properties\<close>

lemma assign_existing_fresh:
  "key \<notin> fst ` set obj \<Longrightarrow> assign_existing key v obj = obj @ [(key, v)]"
  by (induction obj) auto

lemma json_loop_distinct:
  "distinct (map fst cfg) \<Longrightarrow> fst ` set cfg \<inter> fst ` set obj = {} \<Longrightarrow>
   json_loop cfg obj = obj @ blob_of cfg"
proof (induction cfg arbitrary: obj)
  case Nil
  show ?case by (simp add: blob_of_def)
next
  case (Cons kv cfg)
  obtain k e where kv: "kv = (k, e)" by (cases kv)
  have fresh: "k \<notin> fst ` set obj" using Cons.prems(2) by (auto simp: kv)
  have step: "json_step kv obj = obj @ blob_of [kv]"
    using fresh by (simp add: kv json_step_def obj_assign_def blob_of_def assign_existing_fresh)
  have "fst ` set (blob_of [kv]) \<subseteq> {k}" by (auto simp: kv blob_of_def)
  moreover have "k \<notin> fst ` set cfg" using Cons.prems(1) by (auto simp: kv)
  ultimately have disj: "fst ` set cfg \<inter> fst ` set (json_step kv obj) = {}"
    using Cons.prems(2) by (auto simp: step)
  have "json_loop (kv # cfg) obj = json_step kv obj @ blob_of cfg"
    using Cons.IH [OF _ disj] Cons.prems(1) by simp
  also have "\<dots> = obj @ blob_of (kv # cfg)" by (simp add: step blob_of_def)
  finally show ?case .
qed

lemma outputJsonBlob_distinct:
  assumes "distinct (map fst (config g))"
  shows "outputJsonBlob stringify g h =
           h @ [SetOutput ''json-env'' (stringify (blob_of (config g))),
                Info (check_mark @ '' Output JSON blob with environment variables'')]"
  using json_loop_distinct [OF assms, of "[]"]
  by (simp add: outputJsonBlob_def core_info_def core_setOutput_def)

text \<open>
  C5. The blob is published as the one output \<open>json-env\<close>, serialized from an object that
  holds raw values only; an entry with an absent value is left out. But the object does
  not hold exactly the keys of the present entries: for the configuration
  \<open>{X: {value: 1}, __proto__: {value: "s"}}\<close> the published object is \<open>{X: 1}\<close>, the
  assignment \<open>jsonOutput['__proto__'] = "s"\<close> creating no property. (For a configuration
  with distinct keys the object is \<open>blob_of\<close> of it: lemma \<open>outputJsonBlob_distinct\<close>.)
\<close>

theorem outputJsonBlob_omits_proto_key:
  "outputJsonBlob stringify (graph_of proto_config) [] =
     [SetOutput ''json-env'' (stringify [(''X'', JNum 1)]),
      Info (check_mark @ '' Output JSON blob with environment variables'')]"
  by (simp add: outputJsonBlob_def graph_of_def proto_config_def json_step_def obj_assign_def
        is_present_def core_info_def core_setOutput_def)

lemma nat_toString_0: "nat_toString 0 = ''0''"
  by code_simp

text \<open>
  C10. A present falsy value is exported in environment mode under every key, as its
  string. In JSON blob mode it is kept, raw, under every key but \<open>__proto__\<close> (lemma
  \<open>falsy_values_exported\<close>); under the key \<open>__proto__\<close> the value \<open>0\<close> is exported as
  the variable \<open>"0"\<close> and is missing from the blob.
\<close>

theorem falsy_value_under_proto_key:
  "setEnvironmentVariables (graph_of falsy_proto_config) [] =
     [ExportVariable ''__proto__'' ''0'', Info (export_summary falsy_proto_config)]
   \<and> outputJsonBlob stringify (graph_of falsy_proto_config) [] =
     [SetOutput ''json-env'' (stringify []),
      Info (check_mark @ '' Output JSON blob with environment variables'')]"
  by (simp add: setEnvironmentVariables_eq env_calls_concat entry_calls_def
        outputJsonBlob_def graph_of_def falsy_proto_config_def json_step_def obj_assign_def
        is_present_def core_info_def core_setOutput_def int_toString_def nat_toString_0)

lemma falsy_values_exported:
  assumes "(key, item) \<in> set (config g)" and "distinct (map fst (config g))"
    and "item_value item \<in> {JStr [], JBool False, JNum 0}"
  shows "ExportVariable key (String_js (item_value item)) \<in> set (setEnvironmentVariables g h)"
    and "String_js (JStr []) = []" and "String_js (JBool False) = ''false''"
    and "String_js (JNum 0) = ''0''"
    and "key \<noteq> ''__proto__'' \<Longrightarrow>
           \<exists>blob. outputJsonBlob stringify g h
                    = h @ [SetOutput ''json-env'' (stringify blob),
                           Info (check_mark @ '' Output JSON blob with environment variables'')]
                  \<and> map_of blob key = Some (item_value item)"
proof -
  have p: "is_present item" using assms(3) by (auto simp: is_present_def)
  show "ExportVariable key (String_js (item_value item)) \<in> set (setEnvironmentVariables g h)"
    using assms(1) p by (auto simp: setEnvironmentVariables_eq export_in_env_calls)
  show "String_js (JStr []) = []" "String_js (JBool False) = ''false''" by simp_all
  show "String_js (JNum 0) = ''0''" by (simp add: int_toString_def nat_toString_0)
  assume k: "key \<noteq> ''__proto__''"
  have d: "distinct (map fst (blob_of (config g)))"
    using assms(2) unfolding blob_of_def
    by (simp add: distinct_map_filter comp_def case_prod_unfold)
  have "(key, item_value item) \<in> set (blob_of (config g))"
    using assms(1) p k by (force simp: blob_of_def)
  then have "map_of (blob_of (config g)) key = Some (item_value item)"
    using d by simp
  then show "\<exists>blob. outputJsonBlob stringify g h
                    = h @ [SetOutput ''json-env'' (stringify blob),
                           Info (check_mark @ '' Output JSON blob with environment variables'')]
                  \<and> map_of blob key = Some (item_value item)"
    using outputJsonBlob_distinct [OF assms(2)] by blast
qed

section \<open>Calling an export routine twice\<close>

lemma exports_append: "exports (a @ b) = exports a @ exports b"
  by (simp add: exports_def)

lemma masks_append: "masks (a @ b) = masks a @ masks b"
  by (simp add: masks_def)

lemma outputs_append: "outputs (a @ b) = outputs a @ outputs b"
  by (simp add: outputs_def)

lemma map_add_twice: "m ++ a ++ a = m ++ a"
  by (rule ext) (simp add: map_add_def split: option.splits)


lemma setEnvironmentVariables_appends:
  "setEnvironmentVariables g h = h @ setEnvironmentVariables g []"
  by (simp add: setEnvironmentVariables_eq)

lemma outputJsonBlob_appends:
  "outputJsonBlob stringify g h = h @ outputJsonBlob stringify g []"
  by (simp add: outputJsonBlob_def core_info_def core_setOutput_def)

text \<open>
  C8. Each export routine only appends calls to the host, and the calls it appends depend
  on the Result Graph alone. So a second call with the same graph makes the same calls
  as the first and cannot fail; after it the set of exported names and values, the set
  of masked values, the resulting environment, and the outputs set are what they were
  after the first call.
\<close>

theorem export_routines_idempotent:
  "setEnvironmentVariables g (setEnvironmentVariables g h)
     = h @ setEnvironmentVariables g [] @ setEnvironmentVariables g []
   \<and> setEnvironmentVariables g h = h @ setEnvironmentVariables g []
   \<and> set (exports (setEnvironmentVariables g (setEnvironmentVariables g h)))
       = set (exports (setEnvironmentVariables g h))
   \<and> set (masks (setEnvironmentVariables g (setEnvironmentVariables g h)))
       = set (masks (setEnvironmentVariables g h))
   \<and> environment (setEnvironmentVariables g (setEnvironmentVariables g h))
       = environment (setEnvironmentVariables g h)
   \<and> outputJsonBlob stringify g (outputJsonBlob stringify g h)
       = h @ outputJsonBlob stringify g [] @ outputJsonBlob stringify g []
   \<and> outputJsonBlob stringify g h = h @ outputJsonBlob stringify g []
   \<and> set (outputs (outputJsonBlob stringify g (outputJsonBlob stringify g h)))
       = set (outputs (outputJsonBlob stringify g h))
   \<and> published (outputJsonBlob stringify g (outputJsonBlob stringify g h))
       = published (outputJsonBlob stringify g h)"
proof -
  let ?e = "setEnvironmentVariables g []"
  let ?j = "outputJsonBlob stringify g []"
  have e1: "setEnvironmentVariables g h = h @ ?e" by (rule setEnvironmentVariables_appends)
  have e2: "setEnvironmentVariables g (setEnvironmentVariables g h) = h @ ?e @ ?e"
    using setEnvironmentVariables_appends [of g "h @ ?e"] e1 by simp
  have j1: "outputJsonBlob stringify g h = h @ ?j" by (rule outputJsonBlob_appends)
  have j2: "outputJsonBlob stringify g (outputJsonBlob stringify g h) = h @ ?j @ ?j"
    using outputJsonBlob_appends [of stringify g "h @ ?j"] j1 by simp
  have env: "environment (h @ ?e @ ?e) = environment (h @ ?e)"
    by (simp add: environment_def exports_append map_add_twice)
  have pub: "published (h @ ?j @ ?j) = published (h @ ?j)"
    by (simp add: published_def outputs_append map_add_twice)
  show ?thesis
    unfolding e2 j2 unfolding e1 j1 using env pub
    by (simp add: exports_append masks_append outputs_append Un_assoc)
qed

section \<open>A run that asks for the summary\<close>

lemma quiet_core [simp]:
  "quiet (core_info m h) = quiet h" "quiet (core_warning m h) = quiet h"
  "quiet (core_setFailed m h) = quiet h" "quiet (core_setOutput n v h) = quiet h"
  by (simp_all add: quiet_def core_info_def core_warning_def core_setFailed_def core_setOutput_def)

lemma failed_core [simp]:
  "marked_failed (core_info m h) = marked_failed h"
  "marked_failed (core_warning m h) = marked_failed h"
  "marked_failed (core_setFailed m h)"
  "marked_failed (core_setOutput n v h) = marked_failed h"
  by (simp_all add: marked_failed_def core_info_def core_warning_def core_setFailed_def
        core_setOutput_def)

lemma checkForEnvFiles_quiet: "quiet (snd (checkForEnvFiles readdir dir h)) = quiet h"
  by (simp add: checkForEnvFiles_def Let_def split: sum.splits)

lemma installVarlock_quiet: "quiet (snd (installVarlock exec sys h)) = quiet h"
  by (simp add: installVarlock_def Let_def split: sum.splits prod.splits)

lemma runVarlockLoad_quiet: "quiet (snd (snd (runVarlockLoad exec parse inputs sys h))) = quiet h"
  by (simp add: runVarlockLoad_def load_catch_def Let_def split: sum.splits prod.splits option.splits)

lemma runVarlockLoad_summary:
  "showSummary inputs \<Longrightarrow> fst (runVarlockLoad exec parse inputs sys h) = Inr r \<Longrightarrow> envGraph r = None"
  by (auto simp: runVarlockLoad_def Let_def split: sum.splits prod.splits option.splits if_splits)

lemma run_end_quiet [simp]:
  "quiet (run_catch error h) = quiet h" "quiet (run_finish inputs n h) = quiet h"
  by (simp_all add: run_catch_def run_finish_def Let_def)

lemma run_end_failed [simp]:
  "marked_failed (run_catch error h)"
  "marked_failed h \<Longrightarrow> marked_failed (run_finish inputs n h)"
  by (simp_all add: run_catch_def run_finish_def Let_def)

lemma run_report_quiet:
  "envGraph r = None \<Longrightarrow> quiet (run_report rt inputs r h) = quiet h"
  by (simp add: run_report_def Let_def)

lemma run_report_failed:
  "envGraph r = None \<Longrightarrow> outputFormat inputs = ''json'' \<Longrightarrow> marked_failed (run_report rt inputs r h)"
  by (simp add: run_report_def Let_def)

lemma run_available_quiet:
  assumes "showSummary inputs"
  shows "quiet (snd (run_available rt inputs sys h)) = quiet h"
proof -
  obtain b h2 where c: "checkForEnvFiles (rt_readdirSync rt sys) (workingDirectory inputs)
      (core_info (magnifier @ '' Checking for environment files...'')
                 (core_info (check_mark @ '' Varlock is available'') h)) = (b, h2)"
    by (cases "checkForEnvFiles (rt_readdirSync rt sys) (workingDirectory inputs)
      (core_info (magnifier @ '' Checking for environment files...'')
                 (core_info (check_mark @ '' Varlock is available'') h))")
  have q2: "quiet h2 = quiet h" using checkForEnvFiles_quiet [of "rt_readdirSync rt sys" "workingDirectory inputs"
      "core_info (magnifier @ '' Checking for environment files...'')
                 (core_info (check_mark @ '' Varlock is available'') h)"] c by simp
  let ?h3 = "core_info (rocket @ '' Loading environment variables with varlock...'')
                        (core_info (check_mark @ '' Environment files found'') h2)"
  obtain res sys' h4 where l: "runVarlockLoad (rt_execSync rt) (rt_parse rt) inputs sys ?h3 = (res, sys', h4)"
    by (cases "runVarlockLoad (rt_execSync rt) (rt_parse rt) inputs sys ?h3")
  have q4: "quiet h4 = quiet h"
    using runVarlockLoad_quiet [of "rt_execSync rt" "rt_parse rt" inputs sys ?h3] l q2 by simp
  have g: "res = Inr r \<Longrightarrow> envGraph r = None" for r
    using runVarlockLoad_summary [OF assms, of "rt_execSync rt" "rt_parse rt" sys ?h3 r] l by simp
  show ?thesis
    using q2 q4 g by (auto simp: run_available_def c l run_report_quiet split: sum.splits)
qed

lemma run_available_failed:
  assumes "showSummary inputs" "outputFormat inputs = ''json''"
  shows "marked_failed (snd (run_available rt inputs sys h))"
proof -
  obtain b h2 where c: "checkForEnvFiles (rt_readdirSync rt sys) (workingDirectory inputs)
      (core_info (magnifier @ '' Checking for environment files...'')
                 (core_info (check_mark @ '' Varlock is available'') h)) = (b, h2)"
    by (cases "checkForEnvFiles (rt_readdirSync rt sys) (workingDirectory inputs)
      (core_info (magnifier @ '' Checking for environment files...'')
                 (core_info (check_mark @ '' Varlock is available'') h))")
  let ?h3 = "core_info (rocket @ '' Loading environment variables with varlock...'')
                        (core_info (check_mark @ '' Environment files found'') h2)"
  obtain res sys' h4 where l: "runVarlockLoad (rt_execSync rt) (rt_parse rt) inputs sys ?h3 = (res, sys', h4)"
    by (cases "runVarlockLoad (rt_execSync rt) (rt_parse rt) inputs sys ?h3")
  have g: "res = Inr r \<Longrightarrow> envGraph r = None" for r
    using runVarlockLoad_summary [OF assms(1), of "rt_execSync rt" "rt_parse rt" sys ?h3 r] l by simp
  show ?thesis
    using g assms(2) by (auto simp: run_available_def c l run_report_failed split: sum.splits)
qed

lemma getInputs_summary:
  "getInput ''show-summary'' = ''true'' \<Longrightarrow> showSummary (getInputs getInput)"
  by (simp add: getInputs_def)

lemma getInputs_json:
  "getInput ''output-format'' = ''json'' \<Longrightarrow> outputFormat (getInputs getInput) = ''json''"
  by (simp add: getInputs_def)

lemma quiet_no_exports: "quiet h \<Longrightarrow> exports h = [] \<and> masks h = []"
proof (induction h)
  case Nil
  show ?case by (simp add: exports_def masks_def)
next
  case (Cons c h)
  then show ?case by (cases c) (simp_all add: quiet_def exports_def masks_def)
qed

lemma marked_failed_iff: "marked_failed h \<longleftrightarrow> (\<exists>msg. SetFailed msg \<in> set h)"
proof (induction h)
  case Nil
  show ?case by (simp add: marked_failed_def)
next
  case (Cons c h)
  then show ?case by (cases c) (auto simp: marked_failed_def)
qed

lemma installVarlock_quiet_pair:
  "installVarlock exec sys h = (sys', h') \<Longrightarrow> quiet h' = quiet h"
  using installVarlock_quiet [of exec sys h] by simp

lemma run_quiet:
  assumes "showSummary (getInputs (rt_getInput rt))"
  shows "quiet (snd (run rt sys []))"
  by (auto simp: run_def Let_def run_available_quiet [OF assms] quiet_def [of "[]"]
           dest!: installVarlock_quiet_pair split: prod.splits bool.splits)

lemma run_failed:
  assumes "showSummary (getInputs (rt_getInput rt))"
    and "outputFormat (getInputs (rt_getInput rt)) = ''json''"
  shows "marked_failed (snd (run rt sys h))"
  by (auto simp: run_def Let_def run_available_failed [OF assms] split: prod.splits bool.splits)

text \<open>
  C9. When the input \<open>show-summary\<close> is \<open>true\<close>, the inputs select the summary branch, a
  load that returns carries no Result Graph, and the whole run (whatever the child
  processes, the directory and the parser do) exports no variable and registers no
  secret; when moreover the input \<open>output-format\<close> is \<open>json\<close>, the run calls
  \<open>setFailed\<close>.
\<close>

theorem run_summary_exports_nothing:
  assumes "rt_getInput rt ''show-summary'' = ''true''"
  shows "showSummary (getInputs (rt_getInput rt))
       \<and> (\<forall>sys' h' r.
             fst (runVarlockLoad (rt_execSync rt) (rt_parse rt) (getInputs (rt_getInput rt)) sys' h')
               = Inr r \<longrightarrow> envGraph r = None)
       \<and> exports (snd (run rt sys [])) = []
       \<and> masks (snd (run rt sys [])) = []
       \<and> (rt_getInput rt ''output-format'' = ''json'' \<longrightarrow>
            (\<exists>msg. SetFailed msg \<in> set (snd (run rt sys []))))"
proof -
  let ?inputs = "getInputs (rt_getInput rt)"
  have s: "showSummary ?inputs" using assms by (rule getInputs_summary)
  have g: "\<forall>sys' h' r.
             fst (runVarlockLoad (rt_execSync rt) (rt_parse rt) ?inputs sys' h') = Inr r
               \<longrightarrow> envGraph r = None"
    using runVarlockLoad_summary [OF s, of "rt_execSync rt" "rt_parse rt"] by blast
  have q: "exports (snd (run rt sys [])) = [] \<and> masks (snd (run rt sys [])) = []"
    using quiet_no_exports [OF run_quiet [OF s]] .
  have f: "rt_getInput rt ''output-format'' = ''json'' \<longrightarrow>
            (\<exists>msg. SetFailed msg \<in> set (snd (run rt sys [])))"
    using run_failed [OF s getInputs_json] by (simp add: marked_failed_iff)
  show ?thesis using s g q f by blast
qed

theorem run_summary_exports_nothing_witness:
  "exports (snd (run summary_runtime () [])) = []
   \<and> masks (snd (run summary_runtime () [])) = []
   \<and> SetFailed ''JSON output format requires valid varlock json-full output''
        \<in> set (snd (run summary_runtime () []))"
proof -
  have a: "rt_getInput summary_runtime ''show-summary'' = ''true''"
    by (simp add: summary_runtime_def)
  have r: "SetFailed ''JSON output format requires valid varlock json-full output''
        \<in> set (snd (run summary_runtime () []))"
    by code_simp
  show ?thesis using run_summary_exports_nothing [OF a, of "()"] r by simp
qed

section \<open>A run whose load returns a value that is no Result Graph\<close>

text \<open>
  On the standard output "null" \<open>JSON.parse\<close> returns \<open>null\<close>: the run logs the warning
  that the output could not be parsed and is not marked failed. On "{}" it returns an
  object without \<open>config\<close>: the export routine throws, and the run ends in the \<open>catch\<close>
  block.
\<close>

lemma run_on_null_output:
  "Warning ''Could not parse varlock output as json-full''
     \<in> set (snd (run (machine_runtime ''null'' [(''null'', Falsy)]) () []))
   \<and> \<not> marked_failed (snd (run (machine_runtime ''null'' [(''null'', Falsy)]) () []))"
  by code_simp

lemma run_on_empty_object_output:
  "last (snd (run (machine_runtime ''{}'' [(''{}'', No_config)]) () []))
     = SetFailed ''Action failed: Cannot convert undefined or null to object''
   \<and> exports (snd (run (machine_runtime ''{}'' [(''{}'', No_config)]) () [])) = []"
  by code_simp

end
